theory Spec2Isabelle
  imports Main "HOL-Library.Word"
begin

section \<open>The platform types and constants used by concurrency.hpp\<close>

text \<open>
  The header wraps the Win32 thread primitive. A \<open>HANDLE\<close> is an opaque pointer of
  which the code only ever asks whether it is \<open>nullptr\<close>; it is a natural number
  here, \<open>0\<close> being \<open>nullptr\<close>. \<open>DWORD\<close> is a 32-bit unsigned integer and
  \<open>size_t\<close> the 64-bit one of a Win64 build.
\<close>

type_synonym HANDLE = nat
type_synonym DWORD = "32 word"
type_synonym size_t = "64 word"

definition nullptr :: HANDLE where
  "nullptr = 0"

text \<open>Constants of the Windows SDK headers, with the values those headers give them.\<close>

definition INFINITE :: DWORD where
  "INFINITE = 0xFFFFFFFF"

definition WAIT_OBJECT_0 :: DWORD where
  "WAIT_OBJECT_0 = 0"

definition WAIT_TIMEOUT :: DWORD where
  "WAIT_TIMEOUT = 258"

definition CREATE_SUSPENDED :: DWORD where
  "CREATE_SUSPENDED = 4"

definition THREAD_PRIORITY_LOWEST :: int where
  "THREAD_PRIORITY_LOWEST = - 2"

definition THREAD_PRIORITY_BELOW_NORMAL :: int where
  "THREAD_PRIORITY_BELOW_NORMAL = - 1"

definition THREAD_PRIORITY_NORMAL :: int where
  "THREAD_PRIORITY_NORMAL = 0"

definition THREAD_PRIORITY_ABOVE_NORMAL :: int where
  "THREAD_PRIORITY_ABOVE_NORMAL = 1"

definition THREAD_PRIORITY_HIGHEST :: int where
  "THREAD_PRIORITY_HIGHEST = 2"

definition THREAD_PRIORITY_TIME_CRITICAL :: int where
  "THREAD_PRIORITY_TIME_CRITICAL = 15"

text \<open>\<open>std::errc::invalid_argument\<close> is \<open>EINVAL\<close>.\<close>

definition EINVAL :: int where
  "EINVAL = 22"

section \<open>Exceptions\<close>

text \<open>
  Every failure of the header is a \<open>std::system_error\<close>: an error code, its category
  and the message given to the constructor (empty when none is given). The other
  exceptions the code could raise are that of \<open>std::optional::value\<close> and
  whatever the copy of the payload at the head of \<open>_start\<close> throws
  (\<open>std::bad_alloc\<close> of \<open>std::make_unique\<close>, or an exception of a copy
  constructor), which is one value here.
\<close>

datatype error_category = system_category | generic_category

datatype exn =
    system_error (code: int) (category: error_category) (what: string)
  | bad_optional_access
  | payload_exception

definition invalid_argument :: "string \<Rightarrow> exn" where
  "invalid_argument msg = system_error EINVAL generic_category msg"

fun is_invalid_operation :: "exn \<Rightarrow> bool" where
  "is_invalid_operation (system_error c cat msg) = (c = EINVAL \<and> cat = generic_category)"
| "is_invalid_operation bad_optional_access = False"
| "is_invalid_operation payload_exception = False"

fun is_os_error :: "exn \<Rightarrow> bool" where
  "is_os_error (system_error c cat msg) = (cat = system_category)"
| "is_os_error bad_optional_access = False"
| "is_os_error payload_exception = False"

section \<open>The operating system as seen by one call\<close>

text \<open>
  What the system answers is outside the program: each operation takes the answers the
  system gives during that call as a record of functions, and two successive operations
  may be given two different records. Beside its result and the new value of the handle,
  an operation returns the list of the system calls it made that act on a thread, in
  order; the two identity queries are pure and are not listed. The record also tells
  whether \<open>std::make_unique\<close>, which copies the payload before any thread is
  created, throws.
\<close>

record win32 =
  GetCurrentThreadId :: DWORD
  GetThreadId :: "HANDLE \<Rightarrow> DWORD"
  WaitForSingleObject :: "HANDLE \<Rightarrow> DWORD \<Rightarrow> DWORD"
  CloseHandle :: "HANDLE \<Rightarrow> bool"
  SetThreadPriority :: "HANDLE \<Rightarrow> int \<Rightarrow> bool"
  ResumeThread :: "HANDLE \<Rightarrow> DWORD"
  beginthreadex :: "DWORD \<Rightarrow> HANDLE"
  GetLastError :: DWORD
  errno :: int
  make_unique_throws :: bool

datatype os_call =
    Call_beginthreadex DWORD
  | Call_SetThreadPriority HANDLE int
  | Call_ResumeThread HANDLE
  | Call_TerminateThread HANDLE DWORD
  | Call_CloseHandle HANDLE
  | Call_WaitForSingleObject HANDLE DWORD

fun is_wait :: "os_call \<Rightarrow> bool" where
  "is_wait (Call_WaitForSingleObject h ms) = True"
| "is_wait c = False"

text \<open>An operation blocks only inside a wait of the system.\<close>

definition blocks :: "os_call list \<Rightarrow> bool" where
  "blocks tr = list_ex is_wait tr"

section \<open>Thread::Priority, Thread::Options, Thread::id\<close>

datatype Priority = LOWEST | LOW | NORMAL | HIGH | HIGHEST | TIME_CRITICAL

text \<open>The enumerators' values, in declaration order.\<close>

fun Priority_val :: "Priority \<Rightarrow> int" where
  "Priority_val LOWEST = 0"
| "Priority_val LOW = 1"
| "Priority_val NORMAL = 2"
| "Priority_val HIGH = 3"
| "Priority_val HIGHEST = 4"
| "Priority_val TIME_CRITICAL = 5"

record Options =
  priority :: "Priority option"

datatype Thread_id = Thread_id (id_val: DWORD)

text \<open>\<open>Thread::id::id()\<close> and \<open>this_thread::get_id\<close>.\<close>

definition id_default :: "win32 \<Rightarrow> Thread_id" where
  "id_default os = Thread_id (GetCurrentThreadId os)"

definition this_thread_get_id :: "win32 \<Rightarrow> Thread_id" where
  "this_thread_get_id os = id_default os"

section \<open>The system-API wrappers\<close>

text \<open>
  The header's free helpers \<open>_cleanup_suspended\<close>, \<open>_start\<close>, \<open>_join\<close>,
  \<open>_thread_id\<close>, \<open>_detach\<close> and \<open>_force_join\<close> take the handle by reference; here
  they return its new value. Their names carry \<open>u_\<close> for the leading underscore.
  Of the callable and its arguments, which \<open>_start\<close> copies and hands to the new
  thread, the model keeps whether the copy throws: it then leaves \<open>_start\<close> before
  the handle is assigned and before any call to the system.
\<close>

definition u_cleanup_suspended :: "HANDLE \<Rightarrow> HANDLE \<times> os_call list" where
  "u_cleanup_suspended handle =
     (nullptr, [Call_TerminateThread handle 0, Call_CloseHandle handle])"

text \<open>
  The \<open>switch\<close> of \<open>_start\<close> over the value of the enumeration: the native priority,
  and whether the \<open>default\<close> label was the one taken.
\<close>

definition priority_switch :: "int \<Rightarrow> int \<times> bool" where
  "priority_switch v =
     (if v = Priority_val LOWEST then (THREAD_PRIORITY_LOWEST, False)
      else if v = Priority_val LOW then (THREAD_PRIORITY_BELOW_NORMAL, False)
      else if v = Priority_val NORMAL then (THREAD_PRIORITY_NORMAL, False)
      else if v = Priority_val HIGH then (THREAD_PRIORITY_ABOVE_NORMAL, False)
      else if v = Priority_val HIGHEST then (THREAD_PRIORITY_HIGHEST, False)
      else if v = Priority_val TIME_CRITICAL then (THREAD_PRIORITY_TIME_CRITICAL, False)
      else (THREAD_PRIORITY_NORMAL, True))"

definition u_start ::
  "win32 \<Rightarrow> HANDLE \<Rightarrow> Options \<Rightarrow> (exn + unit) \<times> HANDLE \<times> os_call list" where
  "u_start os handle0 opt =
     (if make_unique_throws os then (Inl payload_exception, handle0, [])
      else
      let creation_flag = (if priority opt \<noteq> None then CREATE_SUSPENDED else 0);
          handle = beginthreadex os creation_flag;
          tr = [Call_beginthreadex creation_flag]
      in if handle = nullptr then
           (Inl (system_error (errno os) system_category []), handle, tr)
         else if creation_flag \<noteq> 0 then
           (case priority opt of
              None \<Rightarrow> (Inl bad_optional_access, handle, tr)
            | Some p \<Rightarrow>
               (let prio = fst (priority_switch (Priority_val p));
                    tr1 = tr @ [Call_SetThreadPriority handle prio]
                in if \<not> SetThreadPriority os handle prio then
                     (let err = GetLastError os;
                          (handle', tr') = u_cleanup_suspended handle
                      in (Inl (system_error (sint err) system_category []), handle', tr1 @ tr'))
                   else
                     (let tr2 = tr1 @ [Call_ResumeThread handle]
                      in if ResumeThread os handle = - 1 then
                           (let err = GetLastError os;
                                (handle', tr') = u_cleanup_suspended handle
                            in (Inl (system_error (sint err) system_category []),
                                handle', tr2 @ tr'))
                         else (Inr (), handle, tr2))))
         else (Inr (), handle, tr))"

definition u_join :: "win32 \<Rightarrow> HANDLE \<Rightarrow> size_t \<Rightarrow> (exn + bool) \<times> HANDLE \<times> os_call list" where
  "u_join os handle ms_timeout =
     (let ms = (ucast ms_timeout :: DWORD);
          r = WaitForSingleObject os handle ms;
          tr = [Call_WaitForSingleObject handle ms]
      in if r = WAIT_OBJECT_0 then (Inr True, nullptr, tr @ [Call_CloseHandle handle])
         else if r = WAIT_TIMEOUT then (Inr False, handle, tr)
         else (Inl (system_error (sint (GetLastError os)) system_category []), handle, tr))"

definition u_thread_id :: "win32 \<Rightarrow> HANDLE \<Rightarrow> DWORD" where
  "u_thread_id os handle = GetThreadId os handle"

definition u_detach :: "win32 \<Rightarrow> HANDLE \<Rightarrow> (exn + unit) \<times> HANDLE \<times> os_call list" where
  "u_detach os handle =
     (if \<not> CloseHandle os handle then
        (Inl (system_error (sint (GetLastError os)) system_category []), handle,
         [Call_CloseHandle handle])
      else (Inr (), nullptr, [Call_CloseHandle handle]))"

definition u_force_join :: "HANDLE \<Rightarrow> HANDLE \<times> os_call list" where
  "u_force_join handle =
     (nullptr, [Call_WaitForSingleObject handle INFINITE, Call_CloseHandle handle])"

section \<open>Thread\<close>

record Thread =
  handle :: HANDLE

definition Thread_default :: Thread where
  "Thread_default = \<lparr>handle = nullptr\<rparr>"

definition get_id :: "win32 \<Rightarrow> Thread \<Rightarrow> Thread_id" where
  "get_id os t =
     (if handle t \<noteq> nullptr then Thread_id (u_thread_id os (handle t))
      else id_default os)"

definition joinable :: "win32 \<Rightarrow> Thread \<Rightarrow> bool" where
  "joinable os t = (get_id os t \<noteq> this_thread_get_id os)"

text \<open>The destructor: what is left of the handle, and the calls made.\<close>

definition Thread_destroy :: "win32 \<Rightarrow> Thread \<Rightarrow> Thread \<times> os_call list" where
  "Thread_destroy os t =
     (if joinable os t then
        (case u_force_join (handle t) of (h, tr) \<Rightarrow> (t\<lparr>handle := h\<rparr>, tr))
      else (t, []))"

text \<open>The two constructors that start a thread: without options, and with them.\<close>

definition Thread_start_opt :: "win32 \<Rightarrow> Options \<Rightarrow> (exn + unit) \<times> Thread \<times> os_call list" where
  "Thread_start_opt os opt =
     (case u_start os (handle Thread_default) opt of
        (r, h, tr) \<Rightarrow> (r, Thread_default\<lparr>handle := h\<rparr>, tr))"

definition Thread_start :: "win32 \<Rightarrow> (exn + unit) \<times> Thread \<times> os_call list" where
  "Thread_start os = Thread_start_opt os \<lparr>priority = None\<rparr>"

text \<open>\<open>join()\<close>, whose wait is unbounded, and \<open>join(size_t)\<close>.\<close>

definition join :: "win32 \<Rightarrow> Thread \<Rightarrow> (exn + unit) \<times> Thread \<times> os_call list" where
  "join os t =
     (if \<not> joinable os t then
        (Inl (invalid_argument ''Thread::join: thread not joinable''), t, [])
      else
        (case u_join os (handle t) (ucast INFINITE) of
           (Inl e, h, tr) \<Rightarrow> (Inl e, t\<lparr>handle := h\<rparr>, tr)
         | (Inr b, h, tr) \<Rightarrow> (Inr (), t\<lparr>handle := h\<rparr>, tr)))"

definition join_ms :: "win32 \<Rightarrow> Thread \<Rightarrow> size_t \<Rightarrow> (exn + bool) \<times> Thread \<times> os_call list" where
  "join_ms os t ms_timeout =
     (if \<not> joinable os t then
        (Inl (invalid_argument ''Thread::join: thread not joinable''), t, [])
      else
        (case u_join os (handle t) ms_timeout of
           (r, h, tr) \<Rightarrow> (r, t\<lparr>handle := h\<rparr>, tr)))"

definition detach :: "win32 \<Rightarrow> Thread \<Rightarrow> (exn + unit) \<times> Thread \<times> os_call list" where
  "detach os t =
     (if \<not> joinable os t then
        (Inl (invalid_argument ''Thread::detach: thread not detachable''), t, [])
      else
        (case u_detach os (handle t) of
           (r, h, tr) \<Rightarrow> (r, t\<lparr>handle := h\<rparr>, tr)))"

definition native_handle :: "win32 \<Rightarrow> Thread \<Rightarrow> exn + HANDLE" where
  "native_handle os t =
     (if \<not> joinable os t then
        Inl (invalid_argument ''Thread::native_handle: NULL-thread'')
      else Inr (handle t))"

text \<open>
  The move constructor builds a new object from \<open>Thread()\<close> and swaps the two handle
  fields; it returns the new object and what is left of the source.
\<close>

definition Thread_move :: "Thread \<Rightarrow> Thread \<times> Thread" where
  "Thread_move other =
     (let this = Thread_default
      in (this\<lparr>handle := handle other\<rparr>, other\<lparr>handle := handle this\<rparr>))"

text \<open>
  \<open>swap\<close> and move assignment take two existing objects, which may be one and the same:
  the objects live in a store, addressed by natural numbers.
\<close>

type_synonym store = "nat \<Rightarrow> Thread"

definition swap_handles :: "store \<Rightarrow> nat \<Rightarrow> nat \<Rightarrow> store" where
  "swap_handles s a b =
     (let tmp = handle (s a);
          s1 = s(a := (s a)\<lparr>handle := handle (s b)\<rparr>)
      in s1(b := (s1 b)\<lparr>handle := tmp\<rparr>))"

definition Thread_swap :: "store \<Rightarrow> nat \<Rightarrow> nat \<Rightarrow> store \<times> os_call list" where
  "Thread_swap s this other = (swap_handles s this other, [])"

definition std_swap :: "store \<Rightarrow> nat \<Rightarrow> nat \<Rightarrow> store \<times> os_call list" where
  "std_swap s x y = Thread_swap s x y"

definition move_assign :: "win32 \<Rightarrow> store \<Rightarrow> nat \<Rightarrow> nat \<Rightarrow> (exn + unit) \<times> store \<times> os_call list" where
  "move_assign os s this other =
     (if joinable os (s this) then
        (case join os (s this) of
           (Inl e, t', tr) \<Rightarrow> (Inl e, s(this := t'), tr)
         | (Inr u, t', tr) \<Rightarrow> (Inr (), swap_handles (s(this := t')) this other, tr))
      else (Inr (), swap_handles s this other, []))"

section \<open>The two states of a handle\<close>

datatype state = EMPTY | LIVE

definition state_of :: "Thread \<Rightarrow> state" where
  "state_of t = (if handle t = nullptr then EMPTY else LIVE)"


text \<open>
  An operation is rejected when it throws the invalid-argument error, leaves the handle
  as it was and makes no call to the system, hence no wait.
\<close>

definition rejected :: "(exn + 'a) \<times> Thread \<times> os_call list \<Rightarrow> Thread \<Rightarrow> bool" where
  "rejected out t =
     (case out of
        (Inl e, t', tr) \<Rightarrow> is_invalid_operation e \<and> t' = t \<and> tr = []
      | (Inr v, t', tr) \<Rightarrow> False)"

section \<open>Reading a thread's priority back\<close>




section \<open>Concrete systems\<close>

text \<open>
  Answers of the system at which the theorems below are instantiated. In \<open>os_main\<close> the
  caller is thread 1, the thread behind handle \<open>h\<close> has id \<open>h + 100\<close>, a wait of zero
  milliseconds times out and any longer one finds the thread terminated. In \<open>os_self\<close>
  the caller is the thread behind handle 5. In \<open>os_wait_failed\<close> every wait fails.
\<close>

definition os_main :: win32 where
  "os_main =
     \<lparr>GetCurrentThreadId = 1,
      GetThreadId = (\<lambda>h. of_nat h + 100),
      WaitForSingleObject = (\<lambda>h ms. if ms = 0 then WAIT_TIMEOUT else WAIT_OBJECT_0),
      CloseHandle = (\<lambda>h. True),
      SetThreadPriority = (\<lambda>h p. True),
      ResumeThread = (\<lambda>h. 1),
      beginthreadex = (\<lambda>flag. 9),
      GetLastError = 0,
      errno = 0,
      make_unique_throws = False\<rparr>"

definition os_self :: win32 where
  "os_self = os_main\<lparr>GetCurrentThreadId := 105\<rparr>"

definition os_wait_failed :: win32 where
  "os_wait_failed = os_main\<lparr>WaitForSingleObject := (\<lambda>h ms. - 1), GetLastError := 6\<rparr>"

definition store_demo :: store where
  "store_demo = (\<lambda>a. if a = 10 then \<lparr>handle = 5\<rparr>
                      else if a = 20 then \<lparr>handle = 7\<rparr> else Thread_default)"

section \<open>The operations, case by case\<close>

lemma ucast_INFINITE: "(ucast (ucast INFINITE :: size_t) :: DWORD) = INFINITE"
  by (simp add: INFINITE_def)

lemma wait_consts_distinct: "WAIT_OBJECT_0 \<noteq> WAIT_TIMEOUT"
  by (simp add: WAIT_OBJECT_0_def WAIT_TIMEOUT_def)

lemma get_id_eq:
  "get_id os t =
     (if handle t \<noteq> nullptr then Thread_id (GetThreadId os (handle t))
      else Thread_id (GetCurrentThreadId os))"
  by (simp add: get_id_def id_default_def u_thread_id_def)

lemma get_id_handle: "handle t = handle u \<Longrightarrow> get_id os t = get_id os u"
  by (simp add: get_id_eq)

lemma joinable_iff:
  "joinable os t \<longleftrightarrow>
     handle t \<noteq> nullptr \<and> GetThreadId os (handle t) \<noteq> GetCurrentThreadId os"
  by (simp add: joinable_def get_id_eq this_thread_get_id_def id_default_def)

lemma empty_not_joinable:
  "handle t = nullptr \<Longrightarrow> \<not> joinable os t \<and> get_id os t = this_thread_get_id os"
  by (simp add: joinable_iff get_id_eq this_thread_get_id_def id_default_def)

lemma is_invalid_operation_invalid_argument: "is_invalid_operation (invalid_argument msg)"
  by (simp add: invalid_argument_def)

lemma join_not_joinable:
  "\<not> joinable os t \<Longrightarrow>
     join os t = (Inl (invalid_argument ''Thread::join: thread not joinable''), t, [])"
  by (simp add: join_def)

lemma join_joinable:
  "joinable os t \<Longrightarrow> join os t =
     (let r = WaitForSingleObject os (handle t) INFINITE;
          w = Call_WaitForSingleObject (handle t) INFINITE
      in if r = WAIT_OBJECT_0 then
           (Inr (), t\<lparr>handle := nullptr\<rparr>, [w, Call_CloseHandle (handle t)])
         else if r = WAIT_TIMEOUT then (Inr (), t, [w])
         else (Inl (system_error (sint (GetLastError os)) system_category []), t, [w]))"
  by (simp add: join_def u_join_def ucast_INFINITE Let_def)

lemma join_ms_joinable:
  "joinable os t \<Longrightarrow> join_ms os t ms =
     (let r = WaitForSingleObject os (handle t) (ucast ms);
          w = Call_WaitForSingleObject (handle t) (ucast ms)
      in if r = WAIT_OBJECT_0 then
           (Inr True, t\<lparr>handle := nullptr\<rparr>, [w, Call_CloseHandle (handle t)])
         else if r = WAIT_TIMEOUT then (Inr False, t, [w])
         else (Inl (system_error (sint (GetLastError os)) system_category []), t, [w]))"
  by (simp add: join_ms_def u_join_def Let_def)

text \<open>
  The bound of \<open>join(size_t)\<close> reaches the system as a \<open>DWORD\<close>: only its low 32
  bits count, so a bound of \<open>2\<^sup>3\<^sup>2\<close> milliseconds is a bound of none.
\<close>

lemma DWORD_overflow: "(4294967296 :: DWORD) = 0"
proof -
  have "(2 ^ 32 :: DWORD) = 0"
    using word_exp_length_eq_0 [where 'a = 32] by simp
  then show ?thesis by simp
qed

lemma join_ms_bound_narrowed: "join_ms os t 4294967296 = join_ms os t 0"
  by (simp add: join_ms_def u_join_def DWORD_overflow)

lemma detach_joinable:
  "joinable os t \<Longrightarrow> detach os t =
     (if CloseHandle os (handle t) then
        (Inr (), t\<lparr>handle := nullptr\<rparr>, [Call_CloseHandle (handle t)])
      else (Inl (system_error (sint (GetLastError os)) system_category []), t,
            [Call_CloseHandle (handle t)]))"
  by (simp add: detach_def u_detach_def)

lemma join_success_empty:
  assumes "fst (join os t) = Inr ()"
    and "WaitForSingleObject os (handle t) INFINITE \<noteq> WAIT_TIMEOUT"
  shows "handle (fst (snd (join os t))) = nullptr"
proof (cases "joinable os t")
  case False
  with assms show ?thesis by (simp add: join_not_joinable)
next
  case True
  with assms show ?thesis
    by (simp add: join_joinable Let_def split: if_splits)
qed

lemma detach_success_empty:
  assumes "fst (detach os t) = Inr ()"
  shows "handle (fst (snd (detach os t))) = nullptr"
proof (cases "joinable os t")
  case False
  with assms show ?thesis by (simp add: detach_def)
next
  case True
  with assms show ?thesis
    by (simp add: detach_joinable split: if_splits)
qed

lemma swap_handles_apply:
  "handle (swap_handles s a b a) = handle (s b)"
  "handle (swap_handles s a b b) = handle (s a)"
  by (simp_all add: swap_handles_def Let_def)

lemma move_assign_joinable:
  "joinable os (s this) \<Longrightarrow> move_assign os s this other =
     (let h = handle (s this);
          r = WaitForSingleObject os h INFINITE;
          w = Call_WaitForSingleObject h INFINITE
      in if r = WAIT_OBJECT_0 then
           (Inr (), swap_handles (s(this := (s this)\<lparr>handle := nullptr\<rparr>)) this other,
            [w, Call_CloseHandle h])
         else if r = WAIT_TIMEOUT then (Inr (), swap_handles s this other, [w])
         else (Inl (system_error (sint (GetLastError os)) system_category []), s, [w]))"
  by (simp add: move_assign_def join_joinable Let_def)

lemma move_assign_not_joinable:
  "\<not> joinable os (s this) \<Longrightarrow>
     move_assign os s this other = (Inr (), swap_handles s this other, [])"
  by (simp add: move_assign_def)

lemma move_assign_source_after:
  assumes "fst (move_assign os s a b) = Inr ()"
    and "WaitForSingleObject os (handle (s a)) INFINITE \<noteq> WAIT_TIMEOUT"
  shows "\<not> joinable os (fst (snd (move_assign os s a b)) b)"
proof (cases "joinable os (s a)")
  case True
  with assms show ?thesis
    by (simp add: move_assign_joinable Let_def joinable_iff swap_handles_apply
        split: if_splits)
next
  case False
  then show ?thesis
    by (simp add: move_assign_not_joinable joinable_iff swap_handles_apply)
qed

lemma not_joinable_get_id:
  "\<not> joinable os t \<Longrightarrow> get_id os t = this_thread_get_id os"
  by (simp add: joinable_def)

text \<open>The concrete systems, field by field.\<close>

lemma os_main_simps:
  "GetCurrentThreadId os_main = 1"
  "GetThreadId os_main h = of_nat h + 100"
  "WaitForSingleObject os_main h ms = (if ms = 0 then WAIT_TIMEOUT else WAIT_OBJECT_0)"
  "CloseHandle os_main h = True"
  "SetThreadPriority os_main h p = True"
  "ResumeThread os_main h = 1"
  "beginthreadex os_main flag = 9"
  "GetLastError os_main = 0"
  "errno os_main = 0"
  "make_unique_throws os_main = False"
  by (simp_all add: os_main_def)

lemma os_self_simps:
  "GetCurrentThreadId os_self = 105"
  "GetThreadId os_self h = of_nat h + 100"
  by (simp_all add: os_self_def os_main_def)

lemma os_wait_failed_simps:
  "GetCurrentThreadId os_wait_failed = 1"
  "GetThreadId os_wait_failed h = of_nat h + 100"
  "WaitForSingleObject os_wait_failed h ms = - 1"
  "GetLastError os_wait_failed = 6"
  by (simp_all add: os_wait_failed_def os_main_def)

lemma joinable_main_5: "joinable os_main \<lparr>handle = 5\<rparr>"
  by (simp add: joinable_iff os_main_simps nullptr_def)

lemma wait_main_INFINITE: "WaitForSingleObject os_main h INFINITE = WAIT_OBJECT_0"
  by (simp add: os_main_simps INFINITE_def)

lemma join_main_5:
  "join os_main \<lparr>handle = 5\<rparr> =
     (Inr (), \<lparr>handle = nullptr\<rparr>, [Call_WaitForSingleObject 5 INFINITE, Call_CloseHandle 5])"
  by (simp add: join_joinable joinable_main_5 wait_main_INFINITE)

lemma detach_main_5:
  "detach os_main \<lparr>handle = 5\<rparr> = (Inr (), \<lparr>handle = nullptr\<rparr>, [Call_CloseHandle 5])"
  by (simp add: detach_joinable joinable_main_5 os_main_simps)

lemma store_demo_simps:
  "store_demo 10 = \<lparr>handle = 5\<rparr>"
  "store_demo 20 = \<lparr>handle = 7\<rparr>"
  by (simp_all add: store_demo_def)

section \<open>Identity and joinability\<close>

text \<open>
  Claim C1. \<open>get_id()\<close> is the id of the owned native thread while the handle is
  \<open>LIVE\<close> and the calling thread's current id, as \<open>GetCurrentThreadId\<close> gives it,
  while it is \<open>EMPTY\<close>; \<open>this_thread::get_id()\<close> is that same current id, and
  \<open>joinable()\<close> holds exactly when the handle is \<open>LIVE\<close> and the id of its thread is
  not the caller's. Hence an \<open>EMPTY\<close> handle is not joinable and shows the caller's
  id, from whichever thread it is observed, and a handle is \<open>EMPTY\<close> when
  default-constructed, when it was the source of a move construction, after a
  \<open>join()\<close> that returned (the unbounded wait of the system not answering with a
  timeout) and after a \<open>detach()\<close> that returned. The source of a move assignment that
  returned is likewise not joinable and shows the caller's id to the thread that made
  the assignment.
\<close>

theorem C1_get_id_joinable:
  "get_id os t =
     (case state_of t of
        LIVE \<Rightarrow> Thread_id (GetThreadId os (handle t))
      | EMPTY \<Rightarrow> Thread_id (GetCurrentThreadId os))
   \<and> this_thread_get_id os = Thread_id (GetCurrentThreadId os)
   \<and> (joinable os t \<longleftrightarrow>
        state_of t = LIVE \<and> GetThreadId os (handle t) \<noteq> GetCurrentThreadId os)
   \<and> (joinable os t \<longleftrightarrow> state_of t = LIVE \<and> get_id os t \<noteq> this_thread_get_id os)
   \<and> (state_of t = EMPTY \<longrightarrow> \<not> joinable os t \<and> get_id os t = this_thread_get_id os)
   \<and> state_of Thread_default = EMPTY
   \<and> state_of (snd (Thread_move t)) = EMPTY
   \<and> (fst (join os0 u) = Inr ()
        \<and> WaitForSingleObject os0 (handle u) INFINITE \<noteq> WAIT_TIMEOUT
      \<longrightarrow> state_of (fst (snd (join os0 u))) = EMPTY)
   \<and> (fst (detach os0 u) = Inr () \<longrightarrow> state_of (fst (snd (detach os0 u))) = EMPTY)
   \<and> (fst (move_assign os s a b) = Inr ()
        \<and> WaitForSingleObject os (handle (s a)) INFINITE \<noteq> WAIT_TIMEOUT
      \<longrightarrow> \<not> joinable os (fst (snd (move_assign os s a b)) b)
          \<and> get_id os (fst (snd (move_assign os s a b)) b) = this_thread_get_id os)"
proof -
  have p1: "get_id os t =
     (case state_of t of
        LIVE \<Rightarrow> Thread_id (GetThreadId os (handle t))
      | EMPTY \<Rightarrow> Thread_id (GetCurrentThreadId os))"
    by (simp add: get_id_eq state_of_def)
  have p1': "this_thread_get_id os = Thread_id (GetCurrentThreadId os)"
    by (simp add: this_thread_get_id_def id_default_def)
  have p2': "joinable os t \<longleftrightarrow>
        state_of t = LIVE \<and> GetThreadId os (handle t) \<noteq> GetCurrentThreadId os"
    by (simp add: joinable_iff state_of_def)
  have p2: "joinable os t \<longleftrightarrow> state_of t = LIVE \<and> get_id os t \<noteq> this_thread_get_id os"
    by (simp add: joinable_iff get_id_eq state_of_def this_thread_get_id_def id_default_def)
  have p3: "state_of t = EMPTY \<longrightarrow> \<not> joinable os t \<and> get_id os t = this_thread_get_id os"
    using empty_not_joinable [of t os] by (simp add: state_of_def split: if_splits)
  have p4: "state_of Thread_default = EMPTY"
    by (simp add: state_of_def Thread_default_def)
  have p5: "state_of (snd (Thread_move t)) = EMPTY"
    by (simp add: state_of_def Thread_move_def Thread_default_def Let_def)
  have p6: "fst (join os0 u) = Inr ()
        \<and> WaitForSingleObject os0 (handle u) INFINITE \<noteq> WAIT_TIMEOUT
      \<longrightarrow> state_of (fst (snd (join os0 u))) = EMPTY"
    using join_success_empty [of os0 u] by (simp add: state_of_def)
  have p7: "fst (detach os0 u) = Inr () \<longrightarrow> state_of (fst (snd (detach os0 u))) = EMPTY"
    using detach_success_empty [of os0 u] by (simp add: state_of_def)
  have p8: "fst (move_assign os s a b) = Inr ()
        \<and> WaitForSingleObject os (handle (s a)) INFINITE \<noteq> WAIT_TIMEOUT
      \<longrightarrow> \<not> joinable os (fst (snd (move_assign os s a b)) b)
          \<and> get_id os (fst (snd (move_assign os s a b)) b) = this_thread_get_id os"
    using move_assign_source_after [of os s a b] not_joinable_get_id by blast
  from p1 p1' p2' p2 p3 p4 p5 p6 p7 p8 show ?thesis by blast
qed

theorem C1_get_id_joinable_witness:
  "state_of Thread_default = EMPTY
   \<and> fst (join os_main \<lparr>handle = 5\<rparr>) = Inr ()
   \<and> WaitForSingleObject os_main (handle \<lparr>handle = 5\<rparr>) INFINITE \<noteq> WAIT_TIMEOUT
   \<and> fst (detach os_main \<lparr>handle = 5\<rparr>) = Inr ()
   \<and> fst (move_assign os_main store_demo 10 20) = Inr ()
   \<and> WaitForSingleObject os_main (handle (store_demo 10)) INFINITE \<noteq> WAIT_TIMEOUT
   \<and> get_id os_main Thread_default = Thread_id 1
   \<and> this_thread_get_id os_main = Thread_id 1
   \<and> \<not> joinable os_main Thread_default
   \<and> get_id os_main Thread_default = this_thread_get_id os_main
   \<and> state_of (fst (snd (join os_main \<lparr>handle = 5\<rparr>))) = EMPTY
   \<and> state_of (fst (snd (detach os_main \<lparr>handle = 5\<rparr>))) = EMPTY
   \<and> \<not> joinable os_main (fst (snd (move_assign os_main store_demo 10 20)) 20)"
proof -
  have h1: "state_of Thread_default = EMPTY"
    by (simp add: state_of_def Thread_default_def)
  have h2: "fst (join os_main \<lparr>handle = 5\<rparr>) = Inr ()"
    by (simp add: join_main_5)
  have h3: "WaitForSingleObject os_main h INFINITE \<noteq> WAIT_TIMEOUT" for h
    using wait_consts_distinct by (simp add: wait_main_INFINITE)
  have h4: "fst (detach os_main \<lparr>handle = 5\<rparr>) = Inr ()"
    by (simp add: detach_main_5)
  have h5: "fst (move_assign os_main store_demo 10 20) = Inr ()"
    by (simp add: move_assign_joinable store_demo_simps joinable_main_5 wait_main_INFINITE)
  have h6: "GetCurrentThreadId os_main = 1"
    by (simp add: os_main_simps)
  note C1 = C1_get_id_joinable [of os_main Thread_default os_main "\<lparr>handle = 5\<rparr>" store_demo 10 20]
  from C1 h1 h6 have g: "get_id os_main Thread_default = Thread_id 1
      \<and> this_thread_get_id os_main = Thread_id 1"
    by simp
  from C1 g h1 h2 h3 h4 h5 show ?thesis by blast
qed

section \<open>Operations on a handle that is not joinable\<close>

text \<open>
  Claim C2. On a handle for which \<open>joinable()\<close> is false (whether it is \<open>EMPTY\<close> or
  observed from its own thread), \<open>join()\<close>, \<open>join(timeout)\<close> and \<open>detach()\<close> are
  rejected: they throw the invalid-argument error, change nothing and call nothing in the
  system, so they neither wait nor succeed. A \<open>join()\<close> that follows a \<open>join()\<close>
  which returned is rejected in this way, whatever the system answers the second time
  (the first, unbounded, wait not having been answered with a timeout).
\<close>

theorem C2_not_joinable_rejected:
  "(\<not> joinable os t \<longrightarrow>
      rejected (join os t) t \<and> rejected (join_ms os t ms) t \<and> rejected (detach os t) t
      \<and> \<not> blocks (snd (snd (join os t)))
      \<and> \<not> blocks (snd (snd (join_ms os t ms)))
      \<and> \<not> blocks (snd (snd (detach os t))))
   \<and> (fst (join os1 u) = Inr ()
        \<and> WaitForSingleObject os1 (handle u) INFINITE \<noteq> WAIT_TIMEOUT
      \<longrightarrow> rejected (join os2 (fst (snd (join os1 u)))) (fst (snd (join os1 u))))"
proof -
  have a: "\<not> joinable os t \<longrightarrow>
      rejected (join os t) t \<and> rejected (join_ms os t ms) t \<and> rejected (detach os t) t
      \<and> \<not> blocks (snd (snd (join os t)))
      \<and> \<not> blocks (snd (snd (join_ms os t ms)))
      \<and> \<not> blocks (snd (snd (detach os t)))"
    by (simp add: join_def join_ms_def detach_def rejected_def blocks_def
        is_invalid_operation_invalid_argument)
  have b: "rejected (join os2 (fst (snd (join os1 u)))) (fst (snd (join os1 u)))"
    if "fst (join os1 u) = Inr ()"
      and "WaitForSingleObject os1 (handle u) INFINITE \<noteq> WAIT_TIMEOUT"
  proof -
    from that have "handle (fst (snd (join os1 u))) = nullptr"
      by (rule join_success_empty)
    then have "\<not> joinable os2 (fst (snd (join os1 u)))"
      by (simp add: joinable_iff)
    then show ?thesis
      by (simp add: join_not_joinable rejected_def is_invalid_operation_invalid_argument)
  qed
  from a b show ?thesis by blast
qed

theorem C2_not_joinable_rejected_witness:
  "\<not> joinable os_main Thread_default
   \<and> fst (join os_main \<lparr>handle = 5\<rparr>) = Inr ()
   \<and> WaitForSingleObject os_main (handle \<lparr>handle = 5\<rparr>) INFINITE \<noteq> WAIT_TIMEOUT
   \<and> rejected (join os_main Thread_default) Thread_default
   \<and> rejected (join_ms os_main Thread_default 0) Thread_default
   \<and> rejected (detach os_main Thread_default) Thread_default
   \<and> rejected (join os_main (fst (snd (join os_main \<lparr>handle = 5\<rparr>))))
        (fst (snd (join os_main \<lparr>handle = 5\<rparr>)))"
proof -
  have h1: "\<not> joinable os_main Thread_default"
    by (simp add: joinable_iff Thread_default_def)
  have h2: "fst (join os_main \<lparr>handle = 5\<rparr>) = Inr ()"
    by (simp add: join_main_5)
  have h3: "WaitForSingleObject os_main (handle \<lparr>handle = 5\<rparr>) INFINITE \<noteq> WAIT_TIMEOUT"
    using wait_consts_distinct by (simp add: wait_main_INFINITE)
  from C2_not_joinable_rejected [of os_main Thread_default 0 os_main "\<lparr>handle = 5\<rparr>" os_main]
    h1 h2 h3
  show ?thesis by blast
qed

section \<open>The join with a bound\<close>

text \<open>
  What \<open>join(size_t)\<close> does on a joinable handle, by the answer of the system to the
  wait it makes: \<open>true\<close> and the handle closed and cleared when the thread is found
  terminated, \<open>false\<close> and the handle as it was when the wait times out. The bound of
  that wait is the argument converted to \<open>DWORD\<close>.
\<close>

lemma join_ms_outcomes:
  assumes "joinable os t"
  shows "(WaitForSingleObject os (handle t) (ucast ms) = WAIT_OBJECT_0 \<longrightarrow>
            join_ms os t ms =
              (Inr True, t\<lparr>handle := nullptr\<rparr>,
               [Call_WaitForSingleObject (handle t) (ucast ms), Call_CloseHandle (handle t)])
            \<and> state_of (t\<lparr>handle := nullptr\<rparr>) = EMPTY)
       \<and> (WaitForSingleObject os (handle t) (ucast ms) = WAIT_TIMEOUT \<longrightarrow>
            join_ms os t ms = (Inr False, t, [Call_WaitForSingleObject (handle t) (ucast ms)])
            \<and> state_of t = LIVE)"
  using assms wait_consts_distinct
  by (auto simp add: join_ms_joinable Let_def state_of_def joinable_iff)

text \<open>
  Claim C4 asks that \<open>join(timeout)\<close> return \<open>true\<close> and leave the handle \<open>EMPTY\<close>
  whenever the thread terminates within the bound. The code breaks this for the bounds
  that do not fit a \<open>DWORD\<close>. In the system \<open>os_main\<close> the thread behind handle 5 is
  found terminated by a wait of one millisecond; yet \<open>join(4294967296)\<close> on that handle
  waits for zero milliseconds, returns \<open>false\<close> and leaves the handle \<open>LIVE\<close>. And
  \<open>join(4294967295)\<close> hands the system the bound \<open>INFINITE\<close>: a wait without limit.
\<close>

theorem C4_timed_join_narrowed:
  "joinable os_main \<lparr>handle = 5\<rparr>
   \<and> WaitForSingleObject os_main 5 1 = WAIT_OBJECT_0
   \<and> join_ms os_main \<lparr>handle = 5\<rparr> 4294967296 =
       (Inr False, \<lparr>handle = 5\<rparr>, [Call_WaitForSingleObject 5 0])
   \<and> state_of \<lparr>handle = 5\<rparr> = LIVE
   \<and> snd (snd (join_ms os_main \<lparr>handle = 5\<rparr> 4294967295)) =
       [Call_WaitForSingleObject 5 INFINITE, Call_CloseHandle 5]"
proof -
  have a: "join_ms os_main \<lparr>handle = 5\<rparr> 4294967296 =
       (Inr False, \<lparr>handle = 5\<rparr>, [Call_WaitForSingleObject 5 0])"
    using wait_consts_distinct
    by (simp add: join_ms_joinable joinable_main_5 os_main_simps DWORD_overflow)
  have b: "snd (snd (join_ms os_main \<lparr>handle = 5\<rparr> 4294967295)) =
       [Call_WaitForSingleObject 5 INFINITE, Call_CloseHandle 5]"
    by (simp add: join_ms_joinable joinable_main_5 os_main_simps INFINITE_def)
  have c: "WaitForSingleObject os_main 5 1 = WAIT_OBJECT_0"
    by (simp add: os_main_simps)
  have d: "state_of \<lparr>handle = 5\<rparr> = LIVE"
    by (simp add: state_of_def nullptr_def)
  from a b c d joinable_main_5 show ?thesis by blast
qed

section \<open>A wait that fails\<close>

text \<open>
  Claim C10. When the wait of \<open>join()\<close> or of \<open>join(timeout)\<close> on a joinable handle
  answers neither "terminated" nor "timeout", the operation throws a system error
  carrying \<open>GetLastError\<close>; the wait is the only call made, so the native reference is
  neither closed nor cleared: the handle is returned unchanged, still \<open>LIVE\<close> and
  joinable, and the join can be made again.
\<close>

theorem C10_wait_failure:
  assumes "joinable os t"
  shows "(WaitForSingleObject os (handle t) INFINITE \<noteq> WAIT_OBJECT_0
          \<and> WaitForSingleObject os (handle t) INFINITE \<noteq> WAIT_TIMEOUT \<longrightarrow>
            join os t =
              (Inl (system_error (sint (GetLastError os)) system_category []), t,
               [Call_WaitForSingleObject (handle t) INFINITE]))
       \<and> (WaitForSingleObject os (handle t) (ucast ms) \<noteq> WAIT_OBJECT_0
          \<and> WaitForSingleObject os (handle t) (ucast ms) \<noteq> WAIT_TIMEOUT \<longrightarrow>
            join_ms os t ms =
              (Inl (system_error (sint (GetLastError os)) system_category []), t,
               [Call_WaitForSingleObject (handle t) (ucast ms)]))
       \<and> is_os_error (system_error (sint (GetLastError os)) system_category [])
       \<and> state_of t = LIVE"
  using assms
  by (simp add: join_ms_joinable join_joinable Let_def state_of_def joinable_iff)

theorem C10_wait_failure_witness:
  "joinable os_wait_failed \<lparr>handle = 5\<rparr>
   \<and> WaitForSingleObject os_wait_failed (handle \<lparr>handle = 5\<rparr>) INFINITE \<noteq> WAIT_OBJECT_0
   \<and> WaitForSingleObject os_wait_failed (handle \<lparr>handle = 5\<rparr>) INFINITE \<noteq> WAIT_TIMEOUT
   \<and> WaitForSingleObject os_wait_failed (handle \<lparr>handle = 5\<rparr>) (ucast (100 :: size_t))
        \<noteq> WAIT_OBJECT_0
   \<and> WaitForSingleObject os_wait_failed (handle \<lparr>handle = 5\<rparr>) (ucast (100 :: size_t))
        \<noteq> WAIT_TIMEOUT
   \<and> join os_wait_failed \<lparr>handle = 5\<rparr> =
       (Inl (system_error 6 system_category []), \<lparr>handle = 5\<rparr>,
        [Call_WaitForSingleObject 5 INFINITE])
   \<and> join_ms os_wait_failed \<lparr>handle = 5\<rparr> 100 =
       (Inl (system_error 6 system_category []), \<lparr>handle = 5\<rparr>,
        [Call_WaitForSingleObject 5 100])"
proof -
  have h1: "joinable os_wait_failed \<lparr>handle = 5\<rparr>"
    by (simp add: joinable_iff os_wait_failed_simps nullptr_def)
  have h2: "WaitForSingleObject os_wait_failed h ms \<noteq> WAIT_OBJECT_0" for h ms
    by (simp add: os_wait_failed_simps WAIT_OBJECT_0_def)
  have h3: "WaitForSingleObject os_wait_failed h ms \<noteq> WAIT_TIMEOUT" for h ms
    by (simp add: os_wait_failed_simps WAIT_TIMEOUT_def)
  from C10_wait_failure [OF h1, of 100] h2 h3
  have "join os_wait_failed \<lparr>handle = 5\<rparr> =
       (Inl (system_error 6 system_category []), \<lparr>handle = 5\<rparr>,
        [Call_WaitForSingleObject 5 INFINITE])
   \<and> join_ms os_wait_failed \<lparr>handle = 5\<rparr> 100 =
       (Inl (system_error 6 system_category []), \<lparr>handle = 5\<rparr>,
        [Call_WaitForSingleObject 5 100])"
    by (simp add: os_wait_failed_simps)
  with h1 h2 h3 show ?thesis by blast
qed

section \<open>Starting a thread with a priority\<close>

lemma u_start_priority:
  "u_start os h0 \<lparr>priority = Some p\<rparr> =
     (let h = beginthreadex os CREATE_SUSPENDED;
          v = fst (priority_switch (Priority_val p));
          create = [Call_beginthreadex CREATE_SUSPENDED, Call_SetThreadPriority h v];
          cleanup = [Call_TerminateThread h 0, Call_CloseHandle h]
      in if make_unique_throws os then (Inl payload_exception, h0, [])
         else if h = nullptr then
           (Inl (system_error (errno os) system_category []), nullptr,
            [Call_beginthreadex CREATE_SUSPENDED])
         else if \<not> SetThreadPriority os h v then
           (Inl (system_error (sint (GetLastError os)) system_category []), nullptr,
            create @ cleanup)
         else if ResumeThread os h = - 1 then
           (Inl (system_error (sint (GetLastError os)) system_category []), nullptr,
            create @ [Call_ResumeThread h] @ cleanup)
         else (Inr (), h, create @ [Call_ResumeThread h]))"
  by (simp add: u_start_def u_cleanup_suspended_def CREATE_SUSPENDED_def Let_def)

lemma priority_switch_value:
  "fst (priority_switch (Priority_val p)) =
     (case p of
        LOWEST \<Rightarrow> THREAD_PRIORITY_LOWEST
      | LOW \<Rightarrow> THREAD_PRIORITY_BELOW_NORMAL
      | NORMAL \<Rightarrow> THREAD_PRIORITY_NORMAL
      | HIGH \<Rightarrow> THREAD_PRIORITY_ABOVE_NORMAL
      | HIGHEST \<Rightarrow> THREAD_PRIORITY_HIGHEST
      | TIME_CRITICAL \<Rightarrow> THREAD_PRIORITY_TIME_CRITICAL)"
  by (cases p) (simp_all add: priority_switch_def)

text \<open>
  Claim C3. Given a priority, the constructor, once it has copied its payload, creates
  the thread suspended, applies to it the scheduling constant of that priority, then
  resumes it, in this order. When the creation fails it throws a system error at once,
  the creation being the only call made. When applying the priority fails, or the
  resumption does, it terminates the thread that was never resumed, closes its handle,
  leaves the handle field null and throws a system error. A copy of the payload that
  throws leaves the constructor before any of this, with no call to the system.
\<close>

theorem C3_priority_start:
  "Thread_start_opt os \<lparr>priority = Some p\<rparr> =
     (let h = beginthreadex os CREATE_SUSPENDED;
          v = (case p of
                 LOWEST \<Rightarrow> THREAD_PRIORITY_LOWEST
               | LOW \<Rightarrow> THREAD_PRIORITY_BELOW_NORMAL
               | NORMAL \<Rightarrow> THREAD_PRIORITY_NORMAL
               | HIGH \<Rightarrow> THREAD_PRIORITY_ABOVE_NORMAL
               | HIGHEST \<Rightarrow> THREAD_PRIORITY_HIGHEST
               | TIME_CRITICAL \<Rightarrow> THREAD_PRIORITY_TIME_CRITICAL);
          create = Call_beginthreadex CREATE_SUSPENDED;
          apply_priority = Call_SetThreadPriority h v;
          resume = Call_ResumeThread h;
          cleanup = [Call_TerminateThread h 0, Call_CloseHandle h]
      in if make_unique_throws os then (Inl payload_exception, Thread_default, [])
         else if h = nullptr then
           (Inl (system_error (errno os) system_category []), Thread_default, [create])
         else if \<not> SetThreadPriority os h v then
           (Inl (system_error (sint (GetLastError os)) system_category []), Thread_default,
            [create, apply_priority] @ cleanup)
         else if ResumeThread os h = - 1 then
           (Inl (system_error (sint (GetLastError os)) system_category []), Thread_default,
            [create, apply_priority, resume] @ cleanup)
         else (Inr (), \<lparr>handle = h\<rparr>, [create, apply_priority, resume]))
   \<and> state_of Thread_default = EMPTY
   \<and> is_os_error (system_error (errno os) system_category [])
   \<and> is_os_error (system_error (sint (GetLastError os)) system_category [])"
  by (simp add: Thread_start_opt_def u_start_priority priority_switch_value Let_def
      Thread_default_def state_of_def)

section \<open>The priority table\<close>

text \<open>
  Claim C6. The \<open>switch\<close> of \<open>_start\<close> sends each of the six values of \<open>Priority\<close>
  to one scheduling constant of the system, through a \<open>case\<close> label of its own: the
  \<open>default\<close> label is taken for none of them.
\<close>

theorem C6_priority_mapping_total:
  "priority_switch (Priority_val p) =
     (case p of
        LOWEST \<Rightarrow> THREAD_PRIORITY_LOWEST
      | LOW \<Rightarrow> THREAD_PRIORITY_BELOW_NORMAL
      | NORMAL \<Rightarrow> THREAD_PRIORITY_NORMAL
      | HIGH \<Rightarrow> THREAD_PRIORITY_ABOVE_NORMAL
      | HIGHEST \<Rightarrow> THREAD_PRIORITY_HIGHEST
      | TIME_CRITICAL \<Rightarrow> THREAD_PRIORITY_TIME_CRITICAL,
      False)"
  by (cases p) (simp_all add: priority_switch_def)

section \<open>Swap\<close>

text \<open>
  Claim C7. \<open>swap\<close>, as a member and as \<open>std::swap\<close>, exchanges the native
  references of the two handles whatever their states, so that each shows the id the
  other showed; it calls nothing in the system, hence does not wait, and it has no
  failing outcome.
\<close>

theorem C7_swap_exchanges:
  "handle (fst (Thread_swap s a b) a) = handle (s b)
   \<and> handle (fst (Thread_swap s a b) b) = handle (s a)
   \<and> state_of (fst (Thread_swap s a b) a) = state_of (s b)
   \<and> state_of (fst (Thread_swap s a b) b) = state_of (s a)
   \<and> get_id os (fst (Thread_swap s a b) a) = get_id os (s b)
   \<and> get_id os (fst (Thread_swap s a b) b) = get_id os (s a)
   \<and> snd (Thread_swap s a b) = []
   \<and> \<not> blocks (snd (Thread_swap s a b))
   \<and> std_swap s a b = Thread_swap s a b"
  by (simp add: Thread_swap_def std_swap_def swap_handles_apply state_of_def blocks_def
      get_id_handle [of "swap_handles s a b a" "s b"]
      get_id_handle [of "swap_handles s a b b" "s a"])

section \<open>The native handle\<close>

text \<open>
  Claim C8 does not hold as stated: \<open>native_handle()\<close> tests \<open>joinable()\<close>, not the
  handle field, so a \<open>LIVE\<close> handle asked from the very thread it owns is refused.
\<close>

theorem C8_native_handle_counterexample:
  "state_of \<lparr>handle = 5\<rparr> = LIVE
   \<and> native_handle os_self \<lparr>handle = 5\<rparr>
       = Inl (invalid_argument ''Thread::native_handle: NULL-thread'')
   \<and> native_handle os_self \<lparr>handle = 5\<rparr> \<noteq> Inr 5"
  by (simp add: native_handle_def joinable_iff os_self_simps state_of_def nullptr_def)

text \<open>
  Claim C8, amended. \<open>native_handle()\<close> returns the raw reference whenever the handle is
  joinable, that is \<open>LIVE\<close> with an id that is not the caller's, and throws the
  invalid-argument error exactly when it is not joinable: when the handle is \<open>EMPTY\<close>,
  and when it is \<open>LIVE\<close> but observed from its own thread.
\<close>

theorem C8_native_handle_amended:
  "native_handle os t =
     (if state_of t = LIVE \<and> get_id os t \<noteq> this_thread_get_id os then Inr (handle t)
      else Inl (invalid_argument ''Thread::native_handle: NULL-thread''))
   \<and> is_invalid_operation (invalid_argument ''Thread::native_handle: NULL-thread'')
   \<and> (state_of u = EMPTY \<longrightarrow>
        native_handle os u = Inl (invalid_argument ''Thread::native_handle: NULL-thread''))
   \<and> (joinable os w \<longrightarrow> native_handle os w = Inr (handle w))"
  by (simp add: native_handle_def joinable_iff get_id_eq state_of_def this_thread_get_id_def
      id_default_def is_invalid_operation_invalid_argument)

theorem C8_native_handle_amended_witness:
  "state_of Thread_default = EMPTY
   \<and> joinable os_main \<lparr>handle = 5\<rparr>
   \<and> native_handle os_main Thread_default
       = Inl (invalid_argument ''Thread::native_handle: NULL-thread'')
   \<and> native_handle os_main \<lparr>handle = 5\<rparr> = Inr 5"
proof -
  have h1: "state_of Thread_default = EMPTY"
    by (simp add: state_of_def Thread_default_def)
  have h2: "joinable os_main \<lparr>handle = 5\<rparr>"
    by (rule joinable_main_5)
  from C8_native_handle_amended [of os_main Thread_default Thread_default "\<lparr>handle = 5\<rparr>"] h1 h2
  show ?thesis by simp
qed

section \<open>Moves\<close>








section \<open>The priority read back\<close>






end
